theory Spec2Isabelle
  imports Main
begin

section \<open>Numbers of the host language\<close>

text \<open>
  The program is TypeScript. A \<^verbatim>\<open>number\<close> is an IEEE 754 double. The time values
  of valid \<^verbatim>\<open>Date\<close>s and the quantities computed from them are whole numbers of
  milliseconds; they are modelled as \<^typ>\<open>int\<close>. The whole numbers of magnitude up to
  \<open>2^53\<close> are all doubles; from there to \<open>2^54\<close> only the even ones are, then only the
  multiples of four, and so on: \<open>spacing a\<close> is the distance between neighbouring doubles
  at the magnitude \<open>a\<close>.
\<close>

function spacing :: "int \<Rightarrow> int" where
  "spacing a = (if a < 9007199254740992 then 1 else 2 * spacing (a div 2))"
  by pat_completeness auto
termination
  by (relation "measure nat") auto

declare spacing.simps [simp del]

text \<open>
  An arithmetic operation gives the double nearest to the exact result, and of two
  equally near ones the one with the even significand. \<open>Number_value x\<close> is that double
  for a whole number \<open>x\<close> (of magnitude below \<open>2^1024\<close>, where the doubles end).
\<close>

definition Number_value :: "int \<Rightarrow> int" where
  "Number_value x =
     (let a = \<bar>x\<bar>;
          u = spacing a;
          q = a div u;
          r = a mod u;
          m = (if 2 * r < u \<or> (2 * r = u \<and> even q) then q else q + 1)
      in sgn x * (m * u))"

text \<open>
  \<^verbatim>\<open>Math.floor(a / b)\<close> is \<^term>\<open>a div b\<close> for the operands that occur here: a whole
  double \<open>a\<close> with \<open>0 \<le> a < 2^54\<close> and one of the four constants below as \<open>b\<close>. The
  quotient is rounded before the floor is taken, but when it is not whole it lies at
  least \<open>1/b\<close> below the next whole number, and at least \<open>2/b\<close> when \<open>a\<close> is beyond
  \<open>2^53\<close> and therefore even; either is more than half the distance between doubles at
  the magnitude of the quotient, so that the quotient is never rounded up to that whole
  number. The remainder operator \<^verbatim>\<open>%\<close> is exact and takes the sign of its left
  operand.
\<close>

definition js_rem :: "int \<Rightarrow> int \<Rightarrow> int" where
  "js_rem a b = (if a < 0 then - ((- a) mod \<bar>b\<bar>) else a mod \<bar>b\<bar>)"

section \<open>utils/dateUtils.ts: the countdown\<close>

definition MILLISECONDS_IN_SECOND :: int where
  "MILLISECONDS_IN_SECOND = 1000"

definition MILLISECONDS_IN_MINUTE :: int where
  "MILLISECONDS_IN_MINUTE = 60 * MILLISECONDS_IN_SECOND"

definition MILLISECONDS_IN_HOUR :: int where
  "MILLISECONDS_IN_HOUR = 60 * MILLISECONDS_IN_MINUTE"

definition MILLISECONDS_IN_DAY :: int where
  "MILLISECONDS_IN_DAY = 24 * MILLISECONDS_IN_HOUR"

record CountdownTime =
  totalMs :: int
  days :: int
  hours :: int
  minutes :: int
  seconds :: int
  isPast :: bool

text \<open>
  \<^verbatim>\<open>calculateCountdown(targetDate, now)\<close>; the two arguments of the model are
  \<^verbatim>\<open>targetDate.getTime()\<close> and \<^verbatim>\<open>now.getTime()\<close> of two valid dates, whole
  numbers of magnitude at most 8640000000000000. Their difference is a subtraction of
  doubles: the exact difference has magnitude below \<open>2^54\<close> and is rounded when it is
  beyond \<open>2^53\<close> and odd.
\<close>

definition calculateCountdown :: "int \<Rightarrow> int \<Rightarrow> CountdownTime" where
  "calculateCountdown targetDate now =
     (let totalMs = Number_value (targetDate - now);
          isPast = totalMs < 0;
          absTotalMs = \<bar>totalMs\<bar>;
          days = absTotalMs div MILLISECONDS_IN_DAY;
          hours = js_rem absTotalMs MILLISECONDS_IN_DAY div MILLISECONDS_IN_HOUR;
          minutes = js_rem absTotalMs MILLISECONDS_IN_HOUR div MILLISECONDS_IN_MINUTE;
          seconds = js_rem absTotalMs MILLISECONDS_IN_MINUTE div MILLISECONDS_IN_SECOND
      in \<lparr>totalMs = totalMs, days = days, hours = hours, minutes = minutes,
          seconds = seconds, isPast = isPast\<rparr>)"

section \<open>utils/dateUtils.ts: the formatter\<close>

text \<open>
  \<^verbatim>\<open>String(n)\<close> of a whole number is its decimal numeral, with a minus sign when
  negative (below \<open>10^21\<close>, where JavaScript changes to the exponent notation);
  \<^verbatim>\<open>s.padStart(k, '0')\<close> puts zeros in front of a shorter string and leaves a
  longer one alone.
\<close>

definition digit_char :: "nat \<Rightarrow> char" where
  "digit_char d = ''0123456789'' ! d"

definition decimal_digit :: "char \<Rightarrow> bool" where
  "decimal_digit c = (c \<in> set ''0123456789'')"

fun digits :: "nat \<Rightarrow> string" where
  "digits n = (if n < 10 then [digit_char n] else digits (n div 10) @ [digit_char (n mod 10)])"

declare digits.simps [simp del]

definition String_of :: "int \<Rightarrow> string" where
  "String_of n = (if n < 0 then ''-'' @ digits (nat (- n)) else digits (nat n))"

definition padStart :: "nat \<Rightarrow> char \<Rightarrow> string \<Rightarrow> string" where
  "padStart targetLength padChar s = replicate (targetLength - length s) padChar @ s"

definition formatTime :: "CountdownTime \<Rightarrow> bool \<Rightarrow> string" where
  "formatTime countdown showSeconds =
     (if \<bar>totalMs countdown\<bar> < 1000 \<and> \<not> showSeconds
      then (if isPast countdown then ''00 : 00 : 00'' else ''00 : 00 : 00'')
      else
        (let sign = (if isPast countdown \<and> totalMs countdown \<noteq> 0 then ''-'' else '''');
             d = padStart 2 (CHR ''0'') (String_of (days countdown));
             h = padStart 2 (CHR ''0'') (String_of (hours countdown));
             m = padStart 2 (CHR ''0'') (String_of (minutes countdown));
             s = padStart 2 (CHR ''0'') (String_of (seconds countdown))
         in if showSeconds
            then sign @ d @ '' : '' @ h @ '' : '' @ m @ '' : '' @ s
            else sign @ d @ '' : '' @ h @ '' : '' @ m))"



subsection \<open>The sentence as the specification words it\<close>



section \<open>types.ts\<close>

datatype ColorSchemeType = blue_ocean | green_forest | purple_haze | red_ember

datatype BaseTheme = dark

datatype NotificationPermission = Granted | Denied | Default

text \<open>
  \<^verbatim>\<open>AppSettings\<close> as the interface declares it. The two dates are ISO strings;
  \<^verbatim>\<open>notificationReminders\<close> is an array of numbers, so order and repetitions
  are part of the value.
\<close>

record AppSettings =
  title :: string
  targetDate :: string
  startDate :: string
  showSeconds :: bool
  useKolkataTimezone :: bool
  baseTheme :: BaseTheme
  colorScheme :: ColorSchemeType
  notificationReminders :: "int list"
  notificationEnabled :: bool

text \<open>The members of the enum \<^verbatim>\<open>ReminderOption\<close>.\<close>

definition NONE :: int where "NONE = 0"
definition ONE_HOUR :: int where "ONE_HOUR = 1 * 60 * 60 * 1000"
definition ONE_DAY :: int where "ONE_DAY = 24 * 60 * 60 * 1000"
definition SEVEN_DAYS :: int where "SEVEN_DAYS = 7 * 24 * 60 * 60 * 1000"
definition THIRTY_DAYS :: int where "THIRTY_DAYS = 30 * 24 * 60 * 60 * 1000"

section \<open>App.tsx: the reminder list\<close>

text \<open>
  \<^verbatim>\<open>[...new Set(xs)]\<close>: a \<^verbatim>\<open>Set\<close> keeps its elements in the order of their
  first insertion, and inserting an element it already holds changes nothing.
\<close>

definition Set_add :: "'a \<Rightarrow> 'a list \<Rightarrow> 'a list" where
  "Set_add x acc = (if x \<in> set acc then acc else acc @ [x])"

definition spread_Set :: "'a list \<Rightarrow> 'a list" where
  "spread_Set xs = fold Set_add xs []"

text \<open>
  \<^verbatim>\<open>handleReminderChange(reminder, isChecked)\<close> passes an updater to
  \<^verbatim>\<open>setSettings\<close>; the model is that updater, applied to the previous settings.
\<close>

definition handleReminderChange :: "int \<Rightarrow> bool \<Rightarrow> AppSettings \<Rightarrow> AppSettings" where
  "handleReminderChange reminder isChecked prev =
     (let newReminders =
            (if isChecked
             then spread_Set (notificationReminders prev @ [reminder])
             else filter (\<lambda>r. r \<noteq> reminder) (notificationReminders prev))
      in prev\<lparr>notificationReminders := newReminders\<rparr>)"

section \<open>App.tsx: scheduling the reminders\<close>









subsection \<open>What a call is expected to arm\<close>





section \<open>utils/localStorageUtils.ts\<close>

text \<open>
  What \<^verbatim>\<open>JSON.parse\<close> returns, and what \<^verbatim>\<open>loadSettings\<close> returns at run time,
  where the types of TypeScript are gone: a stored field is passed on whatever its
  value. An object is the list of its properties, each name once. Numbers are modelled
  as whole numbers.
\<close>

datatype json =
  JNull
| JBool bool
| JNum int
| JStr string
| JArr "json list"
| JObj "(string \<times> json) list"

text \<open>The exceptions that the body of \<^verbatim>\<open>loadSettings\<close> can raise.\<close>

datatype error = SecurityError | SyntaxError | TypeError

text \<open>
  \<^verbatim>\<open>value.name\<close>, for the property names that \<^verbatim>\<open>loadSettings\<close> reads, none of
  which a boolean, a number, a string or an array has: \<open>None\<close> is \<^verbatim>\<open>undefined\<close>,
  and reading a property of \<^verbatim>\<open>null\<close> throws.
\<close>

definition get_prop :: "json \<Rightarrow> string \<Rightarrow> error + json option" where
  "get_prop v name =
     (case v of JNull \<Rightarrow> Inl TypeError
              | JObj kvs \<Rightarrow> Inr (map_of kvs name)
              | _ \<Rightarrow> Inr None)"

text \<open>\<^verbatim>\<open>a ?? b\<close>\<close>

definition nullish :: "json option \<Rightarrow> json \<Rightarrow> json" where
  "nullish a b = (case a of None \<Rightarrow> b | Some JNull \<Rightarrow> b | Some v \<Rightarrow> v)"

definition DEFAULT_TARGET_DATE_ISO :: string where
  "DEFAULT_TARGET_DATE_ISO = ''2026-01-21T00:00:00.000+05:30''"

text \<open>
  The object literal that \<^verbatim>\<open>loadSettings\<close> returns inside its \<^verbatim>\<open>try\<close>.
  \<open>start\<close> is \<^verbatim>\<open>DEFAULT_START_DATE_ISO\<close>, the clock's ISO string at the time the
  module was loaded. With \<open>Map.empty\<close> for the stored fields it is the literal at the
  end of the function.
\<close>

definition settings_literal :: "string \<Rightarrow> (string \<Rightarrow> json option) \<Rightarrow> json" where
  "settings_literal start field =
     JObj [(''title'', nullish (field ''title'') (JStr ''JEE Exam'')),
           (''targetDate'', nullish (field ''targetDate'') (JStr DEFAULT_TARGET_DATE_ISO)),
           (''startDate'', nullish (field ''startDate'') (JStr start)),
           (''showSeconds'', nullish (field ''showSeconds'') (JBool True)),
           (''useKolkataTimezone'', JBool True),
           (''baseTheme'', JStr ''dark''),
           (''colorScheme'', nullish (field ''colorScheme'') (JStr ''blue-ocean'')),
           (''notificationReminders'',
              nullish (field ''notificationReminders'') (JArr [JNum ONE_DAY, JNum ONE_HOUR])),
           (''notificationEnabled'', nullish (field ''notificationEnabled'') (JBool False))]"

text \<open>
  The body of the \<^verbatim>\<open>try\<close>. \<open>getItem\<close> is the outcome of
  \<^verbatim>\<open>localStorage.getItem(STORAGE_KEY)\<close>: an exception, \<^verbatim>\<open>null\<close> or a string;
  \<open>JSON_parse\<close> is the host's parser. \<open>Inr None\<close> is leaving the \<^verbatim>\<open>try\<close>
  without \<^verbatim>\<open>return\<close>. The seven property reads throw together or not at all,
  so the first one decides.
\<close>

definition loadSettings_try ::
  "(string \<Rightarrow> error + json) \<Rightarrow> string \<Rightarrow> error + string option \<Rightarrow> error + json option" where
  "loadSettings_try JSON_parse start getItem =
     (case getItem of
        Inl e \<Rightarrow> Inl e
      | Inr None \<Rightarrow> Inr None
      | Inr (Some storedSettings) \<Rightarrow>
          if storedSettings = '''' then Inr None
          else (case JSON_parse storedSettings of
                  Inl e \<Rightarrow> Inl e
                | Inr parsedSettings \<Rightarrow>
                    (case get_prop parsedSettings ''title'' of
                       Inl e \<Rightarrow> Inl e
                     | Inr _ \<Rightarrow>
                         Inr (Some (settings_literal start
                                (\<lambda>name. case get_prop parsedSettings name of
                                           Inl _ \<Rightarrow> None | Inr v \<Rightarrow> v))))))"

text \<open>
  \<^verbatim>\<open>loadSettings()\<close>: \<open>Inl\<close> would be an exception leaving the function. The
  \<^verbatim>\<open>catch\<close> logs and falls through to the literal of the defaults.
\<close>

definition loadSettings ::
  "(string \<Rightarrow> error + json) \<Rightarrow> string \<Rightarrow> error + string option \<Rightarrow> error + json" where
  "loadSettings JSON_parse start getItem =
     (case loadSettings_try JSON_parse start getItem of
        Inr (Some settings) \<Rightarrow> Inr settings
      | Inr None \<Rightarrow> Inr (settings_literal start Map.empty)
      | Inl e \<Rightarrow> Inr (settings_literal start Map.empty))"

subsection \<open>Reading the result\<close>

text \<open>The value of a property of an object, and the names of its properties in order.\<close>

definition property_of :: "json \<Rightarrow> string \<Rightarrow> json option" where
  "property_of v name = (case v of JObj kvs \<Rightarrow> map_of kvs name | _ \<Rightarrow> None)"

definition property_names :: "json \<Rightarrow> string list" where
  "property_names v = (case v of JObj kvs \<Rightarrow> map fst kvs | _ \<Rightarrow> [])"

text \<open>
  The value stored under a name: there is one when the item exists, is not empty,
  parses to an object, and the object has the property with a value other than
  \<^verbatim>\<open>null\<close>.
\<close>

definition stored_field ::
  "(string \<Rightarrow> error + json) \<Rightarrow> error + string option \<Rightarrow> string \<Rightarrow> json option" where
  "stored_field JSON_parse getItem name =
     (case getItem of
        Inr (Some stored) \<Rightarrow>
          (if stored = '''' then None
           else (case JSON_parse stored of
                   Inr (JObj kvs) \<Rightarrow>
                     (case map_of kvs name of
                        Some v \<Rightarrow> if v = JNull then None else Some v
                      | None \<Rightarrow> None)
                 | _ \<Rightarrow> None))
      | _ \<Rightarrow> None)"

text \<open>
  The defaults of the seven fields that are read from storage, as they stand in the
  source, and the names of those fields and of all fields of \<^verbatim>\<open>AppSettings\<close>.
\<close>

definition default_field :: "string \<Rightarrow> string \<Rightarrow> json" where
  "default_field start name =
     (if name = ''title'' then JStr ''JEE Exam''
      else if name = ''targetDate'' then JStr ''2026-01-21T00:00:00.000+05:30''
      else if name = ''startDate'' then JStr start
      else if name = ''showSeconds'' then JBool True
      else if name = ''colorScheme'' then JStr ''blue-ocean''
      else if name = ''notificationReminders'' then JArr [JNum 86400000, JNum 3600000]
      else JBool False)"

definition stored_names :: "string list" where
  "stored_names = [''title'', ''targetDate'', ''startDate'', ''showSeconds'', ''colorScheme'',
                   ''notificationReminders'', ''notificationEnabled'']"

definition AppSettings_names :: "string list" where
  "AppSettings_names = [''title'', ''targetDate'', ''startDate'', ''showSeconds'',
                        ''useKolkataTimezone'', ''baseTheme'', ''colorScheme'',
                        ''notificationReminders'', ''notificationEnabled'']"

section \<open>The host: Date and Intl\<close>

text \<open>
  \<^verbatim>\<open>Date\<close> and \<^verbatim>\<open>Intl.DateTimeFormat\<close> are the JavaScript engine's, not the
  repository's. The part of them that \<^verbatim>\<open>dateUtils.ts\<close> relies on is modelled
  after the language standard: the day and year arithmetic of time values and the
  date-time string format of \<^verbatim>\<open>Date.parse\<close> (ECMA-262), and the fields that
  \<^verbatim>\<open>formatToParts\<close> gives for the Swedish locale with the options of
  \<^verbatim>\<open>getFormattedDateTimeLocal\<close> (ECMA-402). What the standard leaves to the
  machine or to the engine is a parameter, the record \<open>Host\<close>.

  A \<^verbatim>\<open>Date\<close> is its time value, milliseconds since 1970-01-01T00:00Z; \<open>None\<close>
  is the invalid date, whose time value is \<^verbatim>\<open>NaN\<close>.
\<close>

type_synonym Date = "int option"

text \<open>
  The host: its time zone data as \<^verbatim>\<open>Intl\<close> sees it (for a zone name, the offset
  from UTC in milliseconds at each instant; \<open>None\<close> for a name it does not know, for
  which the constructor throws a \<^verbatim>\<open>RangeError\<close>), the offset \<open>LocalTZA\<close> that
  \<^verbatim>\<open>Date\<close> applies to local times, the name of the local zone, and what
  \<^verbatim>\<open>new Date(string)\<close> makes of a string to which the date-time string format
  gives no time value: the standard lets an engine fall back on heuristics and formats of
  its own there (engines read a space in place of the \<^verbatim>\<open>T\<close>, or
  \<^verbatim>\<open>Jan 15 2025\<close>), and \<open>fallback\<close> is \<open>None\<close> for a string they reject too.
\<close>

record Host =
  zoneRules :: "string \<Rightarrow> (int \<Rightarrow> int) option"
  LocalTZA :: "int \<Rightarrow> int"
  TIMEZONE_BROWSER :: string
  fallback :: "string \<Rightarrow> Date"

definition msPerDay :: int where "msPerDay = 86400000"
definition msPerHour :: int where "msPerHour = 3600000"
definition msPerMinute :: int where "msPerMinute = 60000"
definition msPerSecond :: int where "msPerSecond = 1000"


definition DaysInYear :: "int \<Rightarrow> int" where
  "DaysInYear y =
     (if y mod 4 \<noteq> 0 then 365
      else if y mod 100 \<noteq> 0 then 366
      else if y mod 400 \<noteq> 0 then 365
      else 366)"

definition DayFromYear :: "int \<Rightarrow> int" where
  "DayFromYear y =
     365 * (y - 1970) + (y - 1969) div 4 - (y - 1901) div 100 + (y - 1601) div 400"






definition days_before_month :: "int \<Rightarrow> int \<Rightarrow> int" where
  "days_before_month m leap =
     (if m = 0 then 0
      else if m = 1 then 31
      else if m = 2 then 59 + leap
      else if m = 3 then 90 + leap
      else if m = 4 then 120 + leap
      else if m = 5 then 151 + leap
      else if m = 6 then 181 + leap
      else if m = 7 then 212 + leap
      else if m = 8 then 243 + leap
      else if m = 9 then 273 + leap
      else if m = 10 then 304 + leap
      else 334 + leap)"





definition MakeTime :: "int \<Rightarrow> int \<Rightarrow> int \<Rightarrow> int \<Rightarrow> int" where
  "MakeTime hour minute sec ms = hour * msPerHour + minute * msPerMinute + sec * msPerSecond + ms"

definition MakeDay :: "int \<Rightarrow> int \<Rightarrow> int \<Rightarrow> int" where
  "MakeDay year month date =
     (let ym = year + month div 12;
          mn = month mod 12
      in DayFromYear ym + days_before_month mn (if DaysInYear ym = 366 then 1 else 0)
           + date - 1)"

definition MakeDate :: "int \<Rightarrow> int \<Rightarrow> int" where
  "MakeDate day time = day * msPerDay + time"

definition TimeClip :: "int \<Rightarrow> Date" where
  "TimeClip time = (if \<bar>time\<bar> > 8640000000000000 then None else Some time)"

text \<open>The time values a \<^verbatim>\<open>Date\<close> can hold.\<close>

definition valid_time :: "int \<Rightarrow> bool" where
  "valid_time t = (\<bar>t\<bar> \<le> 8640000000000000)"

subsection \<open>The date-time string format\<close>

text \<open>
  \<^verbatim>\<open>YYYY-MM-DDTHH:mm:ss.sssZ\<close>: a year of four digits, or of six with a sign;
  optionally the month, then the day; for a date-time, \<^verbatim>\<open>T\<close>, hours and minutes,
  optionally seconds, then milliseconds, and optionally \<^verbatim>\<open>Z\<close> or a signed
  \<^verbatim>\<open>HH:mm\<close>. Without an offset a date alone is UTC and a date-time is local time.
  The month is 01 to 12 and the day 01 to 31 whatever the month: a day past the end of
  its month is read on into the next month, as V8 reads it.
\<close>

definition digit_val :: "char \<Rightarrow> nat" where
  "digit_val c = of_char c - 48"

definition decimal :: "string \<Rightarrow> nat" where
  "decimal s = foldl (\<lambda>n c. 10 * n + digit_val c) 0 s"

definition take_digits :: "nat \<Rightarrow> string \<Rightarrow> (nat \<times> string) option" where
  "take_digits n s =
     (if n \<le> length s \<and> list_all decimal_digit (take n s)
      then Some (decimal (take n s), drop n s)
      else None)"

definition parse_year :: "string \<Rightarrow> (int \<times> string) option" where
  "parse_year s =
     (case s of
        [] \<Rightarrow> None
      | c # r \<Rightarrow>
          if c = CHR ''+'' \<or> c = CHR ''-''
          then (case take_digits 6 r of
                  None \<Rightarrow> None
                | Some (n, r') \<Rightarrow>
                    if c = CHR ''-'' then (if n = 0 then None else Some (- int n, r'))
                    else Some (int n, r'))
          else (case take_digits 4 s of
                  None \<Rightarrow> None
                | Some (n, r') \<Rightarrow> Some (int n, r')))"

definition parse_date :: "string \<Rightarrow> ((int \<times> nat \<times> nat) \<times> string) option" where
  "parse_date s =
     (case parse_year s of
        None \<Rightarrow> None
      | Some (y, r1) \<Rightarrow>
          (case r1 of
             [] \<Rightarrow> Some ((y, 1, 1), r1)
           | c # r2 \<Rightarrow>
               if c \<noteq> CHR ''-'' then Some ((y, 1, 1), r1)
               else (case take_digits 2 r2 of
                       None \<Rightarrow> None
                     | Some (mo, r3) \<Rightarrow>
                         (case r3 of
                            [] \<Rightarrow> Some ((y, mo, 1), r3)
                          | c' # r4 \<Rightarrow>
                              if c' \<noteq> CHR ''-'' then Some ((y, mo, 1), r3)
                              else (case take_digits 2 r4 of
                                      None \<Rightarrow> None
                                    | Some (d, r5) \<Rightarrow> Some ((y, mo, d), r5))))))"

definition parse_fraction :: "nat \<Rightarrow> nat \<Rightarrow> nat \<Rightarrow> string
     \<Rightarrow> ((nat \<times> nat \<times> nat \<times> nat) \<times> string) option" where
  "parse_fraction h mi sec r =
     (case r of
        [] \<Rightarrow> Some ((h, mi, sec, 0), r)
      | c # r1 \<Rightarrow>
          if c \<noteq> CHR ''.'' then Some ((h, mi, sec, 0), r)
          else (case take_digits 3 r1 of
                  None \<Rightarrow> None
                | Some (ms, r2) \<Rightarrow> Some ((h, mi, sec, ms), r2)))"

definition parse_time :: "string \<Rightarrow> ((nat \<times> nat \<times> nat \<times> nat) \<times> string) option" where
  "parse_time s =
     (case take_digits 2 s of
        None \<Rightarrow> None
      | Some (h, r1) \<Rightarrow>
          (case r1 of
             [] \<Rightarrow> None
           | c # r2 \<Rightarrow>
               if c \<noteq> CHR '':'' then None
               else (case take_digits 2 r2 of
                       None \<Rightarrow> None
                     | Some (mi, r3) \<Rightarrow>
                         (case r3 of
                            [] \<Rightarrow> Some ((h, mi, 0, 0), r3)
                          | c' # r4 \<Rightarrow>
                              if c' \<noteq> CHR '':'' then Some ((h, mi, 0, 0), r3)
                              else (case take_digits 2 r4 of
                                      None \<Rightarrow> None
                                    | Some (sec, r5) \<Rightarrow> parse_fraction h mi sec r5)))))"

text \<open>The end of a date-time: nothing (local time), \<^verbatim>\<open>Z\<close>, or a signed offset.\<close>

datatype zone_designator = Local | Offset int

definition parse_offset :: "string \<Rightarrow> zone_designator option" where
  "parse_offset s =
     (case s of
        [] \<Rightarrow> Some Local
      | c # r \<Rightarrow>
          if c = CHR ''Z'' then (if r = [] then Some (Offset 0) else None)
          else if c = CHR ''+'' \<or> c = CHR ''-''
          then (case take_digits 2 r of
                  None \<Rightarrow> None
                | Some (h, r1) \<Rightarrow>
                    (case r1 of
                       [] \<Rightarrow> None
                     | c' # r2 \<Rightarrow>
                         if c' \<noteq> CHR '':'' then None
                         else (case take_digits 2 r2 of
                                 None \<Rightarrow> None
                               | Some (mi, r3) \<Rightarrow>
                                   if r3 \<noteq> [] \<or> 23 < h \<or> 59 < mi then None
                                   else Some (Offset ((if c = CHR ''-'' then - 1 else 1)
                                          * (int h * msPerHour + int mi * msPerMinute))))))
          else None)"

text \<open>
  The time value that the format gives a string, \<open>None\<close> when the string is not in the
  format or the time value is out of range. \<open>localTZA\<close> is the host's offset of local
  time from UTC for a time value read as local time.
\<close>

definition Date_parse_format :: "(int \<Rightarrow> int) \<Rightarrow> string \<Rightarrow> Date" where
  "Date_parse_format localTZA s =
     (case parse_date s of
        None \<Rightarrow> None
      | Some ((y, mo, d), r) \<Rightarrow>
          if mo < 1 \<or> 12 < mo \<or> d < 1 \<or> 31 < d then None
          else
            (case r of
               [] \<Rightarrow> TimeClip (MakeDate (MakeDay y (int mo - 1) (int d)) 0)
             | c # r1 \<Rightarrow>
                 if c \<noteq> CHR ''T'' then None
                 else
                   (case parse_time r1 of
                      None \<Rightarrow> None
                    | Some ((h, mi, sec, ms), r2) \<Rightarrow>
                        if 24 < h \<or> 59 < mi \<or> 59 < sec
                           \<or> (h = 24 \<and> (mi \<noteq> 0 \<or> sec \<noteq> 0 \<or> ms \<noteq> 0))
                        then None
                        else
                          (case parse_offset r2 of
                             None \<Rightarrow> None
                           | Some z \<Rightarrow>
                               (let tv = MakeDate (MakeDay y (int mo - 1) (int d))
                                           (MakeTime (int h) (int mi) (int sec) (int ms))
                                in case z of
                                     Local \<Rightarrow> TimeClip (tv - localTZA tv)
                                   | Offset off \<Rightarrow> TimeClip (tv - off))))))"

text \<open>
  \<^verbatim>\<open>new Date(string)\<close>: the format first, then the host's fallback. It does not
  throw.
\<close>

definition Date_parse :: "Host \<Rightarrow> string \<Rightarrow> Date" where
  "Date_parse host s =
     (case Date_parse_format (LocalTZA host) s of
        Some tv \<Rightarrow> Some tv
      | None \<Rightarrow> fallback host s)"

subsection \<open>Intl.DateTimeFormat\<close>



section \<open>utils/dateUtils.ts: between local date-time strings and instants\<close>

definition TIMEZONE_KOLKATA :: string where
  "TIMEZONE_KOLKATA = ''Asia/Kolkata''"



text \<open>
  \<^verbatim>\<open>new Date(string)\<close> does not throw, so the \<^verbatim>\<open>catch\<close> of
  \<^verbatim>\<open>getUTCFromDateTimeLocalAndTz\<close> has nothing to catch.
\<close>

definition getUTCFromDateTimeLocalAndTz :: "Host \<Rightarrow> string \<Rightarrow> string \<Rightarrow> Date" where
  "getUTCFromDateTimeLocalAndTz host dateTimeLocalString timezone =
     (if dateTimeLocalString = [] then None
      else if timezone = TIMEZONE_KOLKATA
      then (let isoStringWithOffset = dateTimeLocalString @ '':00.000+05:30''
            in Date_parse host isoStringWithOffset)
      else Date_parse host dateTimeLocalString)"

definition isValidDateInput :: "Host \<Rightarrow> string \<Rightarrow> string \<Rightarrow> bool" where
  "isValidDateInput host dateString timezone =
     (if dateString = [] then False
      else (let date = getUTCFromDateTimeLocalAndTz host dateString timezone
            in date \<noteq> None))"

section \<open>Properties of the countdown\<close>

lemma spacing_below: "a < 9007199254740992 \<Longrightarrow> spacing a = 1"
  by (simp add: spacing.simps)

lemma spacing_next:
  assumes "9007199254740992 \<le> a" "a < 18014398509481984"
  shows "spacing a = 2"
proof -
  have "a div 2 < 9007199254740992"
    using assms(2) by simp
  then have "spacing (a div 2) = 1"
    by (rule spacing_below)
  then show ?thesis
    using assms(1) by (subst spacing.simps) simp
qed

lemma sgn_abs_int: "sgn x * \<bar>x\<bar> = (x::int)"
  by (simp add: sgn_if)

lemma Number_value_exact:
  assumes "\<bar>x\<bar> \<le> 9007199254740992"
  shows "Number_value x = x"
proof (cases "\<bar>x\<bar> = 9007199254740992")
  case False
  then have a: "\<bar>x\<bar> < 9007199254740992"
    using assms by simp
  have "Number_value x = sgn x * \<bar>x\<bar>"
    by (simp add: Number_value_def spacing_below [OF a] Let_def)
  then show ?thesis
    by (simp add: sgn_abs_int)
next
  case True
  have s: "spacing \<bar>x\<bar> = 2"
    unfolding True by (rule spacing_next) simp_all
  have "Number_value x = sgn x * \<bar>x\<bar>"
    unfolding Number_value_def Let_def s unfolding True by simp
  then show ?thesis
    by (simp add: sgn_abs_int)
qed

lemma Number_value_cases:
  assumes "9007199254740992 \<le> \<bar>x\<bar>" "\<bar>x\<bar> < 18014398509481984"
  shows "Number_value x
           = sgn x * (if even x then \<bar>x\<bar>
                      else if even (\<bar>x\<bar> div 2) then \<bar>x\<bar> - 1 else \<bar>x\<bar> + 1)"
proof -
  define a where "a = \<bar>x\<bar>"
  have s: "spacing a = 2"
    using assms by (intro spacing_next) (simp_all add: a_def)
  have ev: "even a = even x"
    by (simp add: a_def)
  have nv: "Number_value x
              = sgn x * ((if 2 * (a mod 2) < 2 \<or> (2 * (a mod 2) = 2 \<and> even (a div 2))
                          then a div 2 else a div 2 + 1) * 2)"
    unfolding Number_value_def a_def [symmetric] Let_def s by (rule refl)
  show ?thesis
  proof (cases "even a")
    case True
    then have "a mod 2 = 0" by presburger
    moreover from True have "a div 2 * 2 = a" by presburger
    ultimately show ?thesis
      using True unfolding nv a_def [symmetric] by (simp add: ev [symmetric])
  next
    case False
    then have m: "a mod 2 = 1" by presburger
    from False have d: "a div 2 * 2 = a - 1" by presburger
    then have d2: "(a div 2 + 1) * 2 = a + 1" by simp
    show ?thesis
    proof (cases "even (a div 2)")
      case True
      then have "Number_value x = sgn x * (a div 2 * 2)"
        unfolding nv m by simp
      then show ?thesis
        using False True unfolding d a_def [symmetric] by (simp add: ev [symmetric])
    next
      case odd: False
      then have "Number_value x = sgn x * ((a div 2 + 1) * 2)"
        unfolding nv m by simp
      then show ?thesis
        using False odd unfolding d2 a_def [symmetric] by (simp add: ev [symmetric])
    qed
  qed
qed

lemma Number_value_even:
  assumes "\<bar>x\<bar> < 18014398509481984" "even x"
  shows "Number_value x = x"
proof (cases "\<bar>x\<bar> \<le> 9007199254740992")
  case True
  then show ?thesis by (rule Number_value_exact)
next
  case False
  then have "9007199254740992 \<le> \<bar>x\<bar>" by simp
  from Number_value_cases [OF this assms(1)] assms(2) show ?thesis
    by (simp add: sgn_abs_int)
qed


lemmas ms_defs =
  MILLISECONDS_IN_SECOND_def MILLISECONDS_IN_MINUTE_def
  MILLISECONDS_IN_HOUR_def MILLISECONDS_IN_DAY_def

lemma js_rem_nonneg: "0 \<le> a \<Longrightarrow> 0 < b \<Longrightarrow> js_rem a b = a mod b"
  by (simp add: js_rem_def)

lemma calculateCountdown_fields:
  "totalMs (calculateCountdown t n) = Number_value (t - n)"
  "isPast (calculateCountdown t n) = (Number_value (t - n) < 0)"
  "days (calculateCountdown t n) = \<bar>Number_value (t - n)\<bar> div 86400000"
  "hours (calculateCountdown t n) = (\<bar>Number_value (t - n)\<bar> mod 86400000) div 3600000"
  "minutes (calculateCountdown t n) = (\<bar>Number_value (t - n)\<bar> mod 3600000) div 60000"
  "seconds (calculateCountdown t n) = (\<bar>Number_value (t - n)\<bar> mod 60000) div 1000"
  by (simp_all add: calculateCountdown_def Let_def ms_defs js_rem_nonneg)

lemma mod_div_swap:
  fixes x b c :: int
  assumes "0 < b" "0 < c"
  shows "(x mod (b * c)) div b = (x div b) mod c"
proof -
  have "x mod (b * c) = b * (x div b mod c) + x mod b"
    using assms by (simp add: zmod_zmult2_eq)
  then have "(x mod (b * c)) div b = (b * (x div b mod c) + x mod b) div b"
    by simp
  also have "\<dots> = x div b mod c"
    using assms by simp
  finally show ?thesis .
qed

lemma hms_sum:
  fixes a :: int
  shows "a div 86400000 * 86400 + (a mod 86400000) div 3600000 * 3600
        + (a mod 3600000) div 60000 * 60 + (a mod 60000) div 1000 = a div 1000"
proof -
  define s where "s = a div 1000"
  define m where "m = s div 60"
  define h where "h = m div 60"
  have s60: "(a mod 60000) div 1000 = s mod 60"
    using mod_div_swap [of 1000 60 a] by (simp add: s_def)
  have m60: "(a mod 3600000) div 60000 = m mod 60"
  proof -
    have "(a mod 3600000) div 60000 = ((a mod (1000 * 3600)) div 1000) div 60"
      by (simp add: zdiv_zmult2_eq [symmetric])
    also have "\<dots> = (s mod 3600) div 60"
      using mod_div_swap [of 1000 3600 a] by (simp add: s_def)
    also have "\<dots> = m mod 60"
      using mod_div_swap [of 60 60 s] by (simp add: m_def)
    finally show ?thesis .
  qed
  have h24: "(a mod 86400000) div 3600000 = h mod 24"
  proof -
    have "(a mod 86400000) div 3600000 = ((a mod (1000 * 86400)) div 1000) div 3600"
      by (simp add: zdiv_zmult2_eq [symmetric])
    also have "\<dots> = (s mod 86400) div 3600"
      using mod_div_swap [of 1000 86400 a] by (simp add: s_def)
    also have "\<dots> = ((s mod (60 * 1440)) div 60) div 60"
      by (simp add: zdiv_zmult2_eq [symmetric])
    also have "\<dots> = (m mod 1440) div 60"
      using mod_div_swap [of 60 1440 s] by (simp add: m_def)
    also have "\<dots> = h mod 24"
      using mod_div_swap [of 60 24 m] by (simp add: h_def)
    finally show ?thesis .
  qed
  have d: "a div 86400000 = h div 24"
  proof -
    have "a div 86400000 = ((a div 1000) div 60) div 1440"
      by (simp add: zdiv_zmult2_eq [symmetric])
    also have "\<dots> = (m div 60) div 24"
      by (simp add: zdiv_zmult2_eq [symmetric] s_def m_def)
    finally show ?thesis by (simp add: h_def)
  qed
  define q where "q = h div 24"
  define r where "r = h mod 24"
  define u where "u = m mod 60"
  define v where "v = s mod 60"
  have hs: "h = q * 24 + r" by (simp add: q_def r_def)
  have ms: "m = h * 60 + u" by (simp add: h_def u_def)
  have ss: "s = m * 60 + v" by (simp add: m_def v_def)
  have "q * 86400 + r * 3600 + u * 60 + v = s"
    unfolding ss ms hs by (simp add: algebra_simps)
  then show ?thesis
    unfolding s60 m60 h24 d q_def r_def u_def v_def s_def .
qed

lemma hms_bounds:
  fixes a :: int
  shows "0 \<le> (a mod 86400000) div 3600000" "(a mod 86400000) div 3600000 \<le> 23"
     "0 \<le> (a mod 3600000) div 60000" "(a mod 3600000) div 60000 \<le> 59"
     "0 \<le> (a mod 60000) div 1000" "(a mod 60000) div 1000 \<le> 59"
proof -
  have "a mod 86400000 < 86400000" "0 \<le> a mod 86400000" by simp_all
  then show "0 \<le> (a mod 86400000) div 3600000" "(a mod 86400000) div 3600000 \<le> 23"
    by simp_all
  have "a mod 3600000 < 3600000" "0 \<le> a mod 3600000" by simp_all
  then show "0 \<le> (a mod 3600000) div 60000" "(a mod 3600000) div 60000 \<le> 59"
    by simp_all
  have "a mod 60000 < 60000" "0 \<le> a mod 60000" by simp_all
  then show "0 \<le> (a mod 60000) div 1000" "(a mod 60000) div 1000 \<le> 59"
    by simp_all
qed


lemma valid_time_difference:
  assumes "valid_time t" "valid_time n"
  shows "\<bar>t - n\<bar> < 18014398509481984"
  using assms by (simp add: valid_time_def abs_le_iff abs_less_iff)


lemma countdown_ev:
  "valid_time 1736937005500" "valid_time 1736937000000"
  "\<bar>1736937005500 - 1736937000000\<bar> \<le> (9007199254740992::int)"
  "calculateCountdown 1736937005500 1736937000000
     = \<lparr>totalMs = 5500, days = 0, hours = 0, minutes = 0, seconds = 5, isPast = False\<rparr>"
  "calculateCountdown 1736937000000 1736937000000
     = \<lparr>totalMs = 0, days = 0, hours = 0, minutes = 0, seconds = 0, isPast = False\<rparr>"
  "valid_time 8640000000000000" "valid_time (- 8639999999999999)"
  "calculateCountdown 8640000000000000 (- 8639999999999999)
     = \<lparr>totalMs = 17280000000000000, days = 200000000, hours = 0, minutes = 0,
        seconds = 0, isPast = False\<rparr>"
  "calculateCountdown 1736937000000 1767225600000
     = \<lparr>totalMs = - 30288600000, days = 350, hours = 13, minutes = 30, seconds = 0,
        isPast = True\<rparr>"
  "valid_time 1767225600000"
  "Number_value 5500 = 5500" "Number_value 0 = 0"
  "Number_value 17279999999999999 = 17280000000000000"
  "Number_value 17280000000000000 = 17280000000000000"
  "Number_value (- 30288600000) = - 30288600000"
  by code_simp+



text \<open>
  C2. Every breakdown that \<open>calculateCountdown\<close> produces from two valid dates accounts
  for the whole seconds of \<open>\<bar>totalMs\<bar>\<close>: days, hours, minutes and seconds weighted by
  86400, 3600, 60 and 1 sum to \<open>\<bar>totalMs\<bar> div 1000\<close>; hours lie in 0..23, minutes and
  seconds in 0..59; days are a non-negative integer that no modulus confines: a target
  \<open>d\<close> whole days after now has \<open>days = d\<close>, for every \<open>d\<close> that keeps it a time value.
\<close>

theorem calculateCountdown_invariant:
  assumes "valid_time target" "valid_time now"
  shows "days (calculateCountdown target now) * 86400
     + hours (calculateCountdown target now) * 3600
     + minutes (calculateCountdown target now) * 60
     + seconds (calculateCountdown target now)
     = \<bar>totalMs (calculateCountdown target now)\<bar> div 1000
   \<and> 0 \<le> hours (calculateCountdown target now)
   \<and> hours (calculateCountdown target now) \<le> 23
   \<and> 0 \<le> minutes (calculateCountdown target now)
   \<and> minutes (calculateCountdown target now) \<le> 59
   \<and> 0 \<le> seconds (calculateCountdown target now)
   \<and> seconds (calculateCountdown target now) \<le> 59
   \<and> 0 \<le> days (calculateCountdown target now)
   \<and> (target = now + int d * 86400000
        \<longrightarrow> days (calculateCountdown target now) = int d)"
proof -
  define a where "a = \<bar>Number_value (target - now)\<bar>"
  have d: "0 \<le> a div 86400000"
    by (simp add: a_def)
  have unb: "target = now + int d * 86400000 \<longrightarrow> a div 86400000 = int d"
  proof
    assume t: "target = now + int d * 86400000"
    have e: "target - now = int d * 86400000"
      by (simp add: t)
    have "Number_value (target - now) = target - now"
      using valid_time_difference [OF assms] by (intro Number_value_even) (simp_all add: e)
    then show "a div 86400000 = int d"
      by (simp add: a_def e)
  qed
  show ?thesis
    unfolding calculateCountdown_fields a_def [symmetric]
    using hms_sum [of a] hms_bounds [of a] d unb by blast
qed

theorem calculateCountdown_invariant_witness:
  "valid_time 1736937000000 \<and> valid_time 1767225600000
   \<and> calculateCountdown 1736937000000 1767225600000
       = \<lparr>totalMs = - 30288600000, days = 350, hours = 13, minutes = 30, seconds = 0,
          isPast = True\<rparr>
   \<and> days (calculateCountdown 1736937000000 1767225600000) * 86400
       + hours (calculateCountdown 1736937000000 1767225600000) * 3600
       + minutes (calculateCountdown 1736937000000 1767225600000) * 60
       + seconds (calculateCountdown 1736937000000 1767225600000)
       = \<bar>totalMs (calculateCountdown 1736937000000 1767225600000)\<bar> div 1000
   \<and> valid_time 8640000000000000 \<and> valid_time (- 8640000000000000)
   \<and> 8640000000000000 = - 8640000000000000 + int 200000000 * 86400000
   \<and> days (calculateCountdown 8640000000000000 (- 8640000000000000)) = 200000000"
proof -
  have v: "valid_time 1736937000000" "valid_time 1767225600000"
    "valid_time 8640000000000000" "valid_time (- 8640000000000000)"
    by (simp_all add: valid_time_def)
  have e: "calculateCountdown 1736937000000 1767225600000
       = \<lparr>totalMs = - 30288600000, days = 350, hours = 13, minutes = 30, seconds = 0,
          isPast = True\<rparr>"
    by (rule countdown_ev)
  have 1: "days (calculateCountdown 1736937000000 1767225600000) * 86400
       + hours (calculateCountdown 1736937000000 1767225600000) * 3600
       + minutes (calculateCountdown 1736937000000 1767225600000) * 60
       + seconds (calculateCountdown 1736937000000 1767225600000)
       = \<bar>totalMs (calculateCountdown 1736937000000 1767225600000)\<bar> div 1000"
    using calculateCountdown_invariant [OF v(1) v(2), of 0] by blast
  have a: "8640000000000000 = - 8640000000000000 + int 200000000 * 86400000"
    by simp
  have 2: "days (calculateCountdown 8640000000000000 (- 8640000000000000)) = 200000000"
    using calculateCountdown_invariant [OF v(3) v(4), of 200000000] a by simp
  from v e 1 a 2 show ?thesis by blast
qed

section \<open>Properties of the formatter\<close>

lemma digit_char_decimal: "d < 10 \<Longrightarrow> decimal_digit (digit_char d)"
  unfolding decimal_digit_def digit_char_def by (rule nth_mem) simp

lemma digits_hd: "digits n \<noteq> [] \<and> decimal_digit (hd (digits n))"
proof (induction n rule: digits.induct)
  case (1 n)
  show ?case
  proof (cases "n < 10")
    case True
    then show ?thesis
      by (subst (1 2) digits.simps) (simp add: digit_char_decimal)
  next
    case False
    with "1" show ?thesis
      by (subst (1 2) digits.simps) simp
  qed
qed

lemma String_of_hd: "0 \<le> n \<Longrightarrow> String_of n \<noteq> [] \<and> decimal_digit (hd (String_of n))"
  by (simp add: String_of_def digits_hd)

lemma padStart_hd:
  assumes "s \<noteq> []" "decimal_digit (hd s)"
  shows "padStart 2 (CHR ''0'') s \<noteq> [] \<and> decimal_digit (hd (padStart 2 (CHR ''0'') s))"
proof (cases "2 - length s")
  case 0
  with assms show ?thesis by (simp add: padStart_def)
next
  case (Suc k)
  then show ?thesis using assms by (simp add: padStart_def decimal_digit_def)
qed

lemma take1_digit:
  assumes "s \<noteq> []" "decimal_digit (hd s)"
  shows "take 1 (s @ r) \<noteq> ''-''"
  using assms by (cases s) (auto simp: decimal_digit_def)

text \<open>
  C6. For a breakdown whose days are not negative: outside the coarse all-zero case,
  \<open>formatTime\<close> starts with \<open>-\<close> exactly when \<open>isPast\<close> holds and \<open>totalMs\<close> is not
  zero, and the text is that sign in front of what the same fields give when not past;
  a zero duration carries no sign and reads the same whatever \<open>isPast\<close> says; and when
  \<open>\<bar>totalMs\<bar> < 1000\<close> with seconds hidden, the text is the literal \<open>00 : 00 : 00\<close>.
\<close>

theorem formatTime_sign:
  assumes "0 \<le> days c"
  shows "(\<not> (\<bar>totalMs c\<bar> < 1000 \<and> \<not> w) \<longrightarrow>
            (take 1 (formatTime c w) = ''-'') = (isPast c \<and> totalMs c \<noteq> 0)
          \<and> formatTime c w
              = (if isPast c \<and> totalMs c \<noteq> 0 then ''-'' else '''')
                @ formatTime (c\<lparr>isPast := False\<rparr>) w)
       \<and> (totalMs c = 0 \<longrightarrow>
            take 1 (formatTime c w) \<noteq> ''-''
          \<and> formatTime (c\<lparr>isPast := True\<rparr>) w = formatTime (c\<lparr>isPast := False\<rparr>) w)
       \<and> (\<bar>totalMs c\<bar> < 1000 \<and> \<not> w \<longrightarrow> formatTime c w = ''00 : 00 : 00'')"
proof -
  define d where "d = padStart 2 (CHR ''0'') (String_of (days c))"
  have d: "d \<noteq> []" "decimal_digit (hd d)"
    using padStart_hd String_of_hd [OF assms] by (simp_all add: d_def)
  have nosign: "take 1 (d @ r) \<noteq> ''-''" for r
    using take1_digit d by blast
  have lit: "take 1 ''00 : 00 : 00'' \<noteq> ''-''" by simp
  show ?thesis
    using nosign lit by (auto simp: formatTime_def Let_def d_def)
qed

lemma formatTime_ev:
  "formatTime (calculateCountdown 0 100000000) True = ''-01 : 03 : 46 : 40''"
  "formatTime (calculateCountdown 0 100000000) False = ''-01 : 03 : 46''"
  "formatTime ((calculateCountdown 0 100000000)\<lparr>isPast := False\<rparr>) False = ''01 : 03 : 46''"
  "formatTime (calculateCountdown 0 500) False = ''00 : 00 : 00''"
  "formatTime (calculateCountdown 7 7) True = ''00 : 00 : 00 : 00''"
  by code_simp+

theorem formatTime_sign_witness:
  "0 \<le> days (calculateCountdown 0 100000000)
   \<and> formatTime (calculateCountdown 0 100000000) True = ''-01 : 03 : 46 : 40''
   \<and> take 1 (formatTime (calculateCountdown 0 100000000) True) = ''-''
   \<and> formatTime (calculateCountdown 0 100000000) False
       = ''-'' @ formatTime ((calculateCountdown 0 100000000)\<lparr>isPast := False\<rparr>) False
   \<and> formatTime (calculateCountdown 0 500) False = ''00 : 00 : 00''
   \<and> formatTime (calculateCountdown 7 7) True = ''00 : 00 : 00 : 00''"
  using formatTime_sign [of "calculateCountdown 0 100000000" True]
    formatTime_sign [of "calculateCountdown 0 100000000" False]
    formatTime_sign [of "calculateCountdown 0 500" False]
    formatTime_sign [of "calculateCountdown 7 7" True]
  by (simp add: formatTime_ev calculateCountdown_fields)




section \<open>Properties of the reminder list\<close>

lemma fold_Set_add:
  "distinct acc \<Longrightarrow>
     distinct (fold Set_add xs acc) \<and> set (fold Set_add xs acc) = set acc \<union> set xs"
proof (induction xs arbitrary: acc)
  case Nil
  then show ?case by simp
next
  case (Cons x xs)
  have "distinct (Set_add x acc)" "set (Set_add x acc) = insert x (set acc)"
    using Cons.prems by (auto simp: Set_add_def)
  with Cons.IH [of "Set_add x acc"] show ?case by auto
qed

lemma spread_Set_distinct: "distinct (spread_Set xs)"
  using fold_Set_add [of "[]" xs] by (simp add: spread_Set_def)

lemma spread_Set_set: "set (spread_Set xs) = set xs"
  using fold_Set_add [of "[]" xs] by (simp add: spread_Set_def)

lemma fold_Set_add_fresh:
  "distinct (acc @ xs) \<Longrightarrow> fold Set_add xs acc = acc @ xs"
proof (induction xs arbitrary: acc)
  case Nil
  then show ?case by simp
next
  case (Cons x xs)
  have "Set_add x acc = acc @ [x]"
    using Cons.prems by (simp add: Set_add_def)
  moreover have "distinct ((acc @ [x]) @ xs)"
    using Cons.prems by simp
  ultimately show ?case
    using Cons.IH [of "acc @ [x]"] by simp
qed

lemma spread_Set_present:
  assumes "distinct xs" "r \<in> set xs"
  shows "spread_Set (xs @ [r]) = xs"
proof -
  have "fold Set_add xs [] = xs"
    using fold_Set_add_fresh [of "[]" xs] assms(1) by simp
  then show ?thesis
    using assms(2) by (simp add: spread_Set_def Set_add_def)
qed

text \<open>
  C10. \<open>handleReminderChange\<close> keeps the reminder list free of duplicates. Checking a
  reminder gives a duplicate-free list whose elements are the previous ones and the
  reminder (the same elements when it was already there, and the very same list when the
  previous list had no duplicates); unchecking removes every occurrence and nothing else;
  so a duplicate-free list stays duplicate-free either way.
\<close>

theorem handleReminderChange_distinct:
  "distinct (notificationReminders (handleReminderChange r True prev))
   \<and> set (notificationReminders (handleReminderChange r True prev))
       = insert r (set (notificationReminders prev))
   \<and> (r \<in> set (notificationReminders prev) \<longrightarrow>
         set (notificationReminders (handleReminderChange r True prev))
           = set (notificationReminders prev))
   \<and> (r \<in> set (notificationReminders prev) \<and> distinct (notificationReminders prev) \<longrightarrow>
         notificationReminders (handleReminderChange r True prev) = notificationReminders prev)
   \<and> r \<notin> set (notificationReminders (handleReminderChange r False prev))
   \<and> set (notificationReminders (handleReminderChange r False prev))
       = set (notificationReminders prev) - {r}
   \<and> (distinct (notificationReminders prev) \<longrightarrow>
         distinct (notificationReminders (handleReminderChange r isChecked prev)))"
proof -
  have on: "notificationReminders (handleReminderChange r True prev)
              = spread_Set (notificationReminders prev @ [r])"
    by (simp add: handleReminderChange_def)
  have off: "notificationReminders (handleReminderChange r False prev)
              = filter (\<lambda>x. x \<noteq> r) (notificationReminders prev)"
    by (simp add: handleReminderChange_def)
  have 1: "distinct (notificationReminders (handleReminderChange r True prev))"
    by (simp add: on spread_Set_distinct)
  have 2: "set (notificationReminders (handleReminderChange r True prev))
       = insert r (set (notificationReminders prev))"
    by (simp add: on spread_Set_set)
  have 3: "r \<in> set (notificationReminders prev) \<longrightarrow>
         set (notificationReminders (handleReminderChange r True prev))
           = set (notificationReminders prev)"
    using 2 by auto
  have 4: "r \<in> set (notificationReminders prev) \<and> distinct (notificationReminders prev) \<longrightarrow>
         notificationReminders (handleReminderChange r True prev) = notificationReminders prev"
    by (simp add: on spread_Set_present)
  have 5: "r \<notin> set (notificationReminders (handleReminderChange r False prev))"
    by (simp add: off)
  have 6: "set (notificationReminders (handleReminderChange r False prev))
       = set (notificationReminders prev) - {r}"
    by (auto simp: off)
  have 7: "distinct (notificationReminders prev) \<longrightarrow>
         distinct (notificationReminders (handleReminderChange r isChecked prev))"
    using 1 by (cases isChecked) (simp_all add: off)
  from 1 2 3 4 5 6 7 show ?thesis by blast
qed

definition settings0 :: AppSettings where
  "settings0 = \<lparr>title = ''JEE Exam'', targetDate = ''2026-01-21T00:00:00.000+05:30'',
      startDate = ''2025-01-01T12:00:00.000Z'', showSeconds = True,
      useKolkataTimezone = True, baseTheme = dark, colorScheme = blue_ocean,
      notificationReminders = [ONE_DAY, ONE_HOUR], notificationEnabled = True\<rparr>"

lemma handleReminderChange_ev:
  "notificationReminders settings0 = [86400000, 3600000]"
  "notificationReminders (handleReminderChange ONE_HOUR True settings0) = [86400000, 3600000]"
  "notificationReminders (handleReminderChange SEVEN_DAYS True settings0)
     = [86400000, 3600000, 604800000]"
  "notificationReminders (handleReminderChange ONE_DAY False settings0) = [3600000]"
  by code_simp+

theorem handleReminderChange_distinct_witness:
  "ONE_HOUR \<in> set (notificationReminders settings0)
   \<and> distinct (notificationReminders settings0)
   \<and> notificationReminders (handleReminderChange ONE_HOUR True settings0)
       = notificationReminders settings0
   \<and> distinct (notificationReminders (handleReminderChange SEVEN_DAYS True settings0))
   \<and> distinct (notificationReminders (handleReminderChange ONE_DAY False settings0))"
  using handleReminderChange_distinct [of ONE_HOUR settings0 True]
    handleReminderChange_distinct [of SEVEN_DAYS settings0 True]
    handleReminderChange_distinct [of ONE_DAY settings0 False]
  by (simp add: handleReminderChange_ev ONE_HOUR_def)

section \<open>Properties of the scheduling\<close>



































section \<open>Properties of loading the settings\<close>

lemma nullish_not_null: "b \<noteq> JNull \<Longrightarrow> nullish a b \<noteq> JNull"
  by (auto simp: nullish_def split: option.splits json.splits)

lemma nullish_stored:
  "nullish a b = (case (case a of Some v \<Rightarrow> if v = JNull then None else Some v | None \<Rightarrow> None)
                  of Some v \<Rightarrow> v | None \<Rightarrow> b)"
  by (auto simp: nullish_def split: option.splits json.splits)

lemma loadSettings_literal:
  "loadSettings JSON_parse start getItem
     = Inr (settings_literal start (stored_field JSON_parse getItem))"
proof -
  have same: "settings_literal start f = settings_literal start g"
    if "\<And>name. nullish (f name) = nullish (g name)" for f g
    using that by (simp add: settings_literal_def)
  have null: "nullish (if v = JNull then None else Some v) = nullish (Some v)" for v
    by (auto simp: nullish_def fun_eq_iff)
  have opt: "nullish (case m of None \<Rightarrow> None | Some v \<Rightarrow> if v = JNull then None else Some v)
               = nullish m" for m
    by (cases m) (simp_all add: null)
  show ?thesis
  proof (cases getItem)
    case (Inl e)
    then show ?thesis
      by (simp add: loadSettings_def loadSettings_try_def stored_field_def settings_literal_def)
  next
    case (Inr item)
    show ?thesis
    proof (cases item)
      case None
      with Inr show ?thesis
        by (simp add: loadSettings_def loadSettings_try_def stored_field_def settings_literal_def)
    next
      case (Some stored)
      show ?thesis
      proof (cases "stored = ''''")
        case True
        with Inr Some show ?thesis
          by (simp add: loadSettings_def loadSettings_try_def stored_field_def settings_literal_def)
      next
        case False
        show ?thesis
        proof (cases "JSON_parse stored")
          case (Inl e)
          with Inr Some False show ?thesis
            by (simp add: loadSettings_def loadSettings_try_def stored_field_def settings_literal_def)
        next
          case parsed: (Inr v)
          have sf: "stored_field JSON_parse getItem
                      = (\<lambda>name. case v of
                           JObj kvs \<Rightarrow> (case map_of kvs name of
                                          Some v \<Rightarrow> if v = JNull then None else Some v
                                        | None \<Rightarrow> None)
                         | _ \<Rightarrow> None)"
            using Inr Some False parsed by (simp add: stored_field_def fun_eq_iff)
          show ?thesis
          proof (cases v)
            case (JObj kvs)
            have "settings_literal start (\<lambda>name. map_of kvs name)
                    = settings_literal start (\<lambda>name. case map_of kvs name of
                                          Some v \<Rightarrow> if v = JNull then None else Some v
                                        | None \<Rightarrow> None)"
              by (rule same) (simp add: opt)
            then show ?thesis
              unfolding sf
              using Inr Some False parsed JObj
              by (simp add: loadSettings_def loadSettings_try_def get_prop_def)
          qed (unfold sf, use Inr Some False parsed in
                \<open>simp_all add: loadSettings_def loadSettings_try_def get_prop_def settings_literal_def\<close>)
        qed
      qed
    qed
  qed
qed

lemma settings_literal_prop:
  "property_of (settings_literal start f) ''useKolkataTimezone'' = Some (JBool True)"
  "property_of (settings_literal start f) ''baseTheme'' = Some (JStr ''dark'')"
  "property_names (settings_literal start f) = AppSettings_names"
  by (simp_all add: settings_literal_def property_of_def property_names_def AppSettings_names_def)

lemma settings_literal_fields:
  "property_of (settings_literal start f) ''title''
     = Some (nullish (f ''title'') (default_field start ''title''))"
  "property_of (settings_literal start f) ''targetDate''
     = Some (nullish (f ''targetDate'') (default_field start ''targetDate''))"
  "property_of (settings_literal start f) ''startDate''
     = Some (nullish (f ''startDate'') (default_field start ''startDate''))"
  "property_of (settings_literal start f) ''showSeconds''
     = Some (nullish (f ''showSeconds'') (default_field start ''showSeconds''))"
  "property_of (settings_literal start f) ''colorScheme''
     = Some (nullish (f ''colorScheme'') (default_field start ''colorScheme''))"
  "property_of (settings_literal start f) ''notificationReminders''
     = Some (nullish (f ''notificationReminders'') (default_field start ''notificationReminders''))"
  "property_of (settings_literal start f) ''notificationEnabled''
     = Some (nullish (f ''notificationEnabled'') (default_field start ''notificationEnabled''))"
  by (simp_all add: settings_literal_def property_of_def default_field_def
        DEFAULT_TARGET_DATE_ISO_def ONE_DAY_def ONE_HOUR_def)

lemma settings_literal_stored:
  assumes "name \<in> set stored_names"
  shows "property_of (settings_literal start f) name
           = Some (nullish (f name) (default_field start name))"
proof -
  from assms have "name = ''title'' \<or> name = ''targetDate'' \<or> name = ''startDate''
    \<or> name = ''showSeconds'' \<or> name = ''colorScheme'' \<or> name = ''notificationReminders''
    \<or> name = ''notificationEnabled''"
    by (simp add: stored_names_def)
  then show ?thesis
    by (elim disjE) (simp_all only: settings_literal_fields)
qed

lemma default_field_not_null: "default_field start name \<noteq> JNull"
  by (simp add: default_field_def)

lemma settings_literal_populated:
  assumes "name \<in> set AppSettings_names"
  shows "property_of (settings_literal start f) name \<noteq> None
         \<and> property_of (settings_literal start f) name \<noteq> Some JNull"
proof -
  from assms have "name = ''useKolkataTimezone'' \<or> name = ''baseTheme''
    \<or> name \<in> set stored_names"
    by (simp add: stored_names_def AppSettings_names_def) argo
  then consider "name = ''useKolkataTimezone''" | "name = ''baseTheme''"
    | "name \<in> set stored_names"
    by (elim disjE)
  then show ?thesis
  proof cases
    case 1
    then show ?thesis by (simp only: settings_literal_prop) simp
  next
    case 2
    then show ?thesis by (simp only: settings_literal_prop) simp
  next
    case 3
    then show ?thesis
      using nullish_not_null [OF default_field_not_null, of "f name" start name]
      by (simp only: settings_literal_stored) simp
  qed
qed

lemma stored_field_not_null: "stored_field JSON_parse getItem name \<noteq> Some JNull"
proof -
  have nn: "(case m of None \<Rightarrow> None | Some v \<Rightarrow> if v = JNull then None else Some v) \<noteq> Some JNull"
    for m :: "json option"
    by (cases m) simp_all
  show ?thesis
  proof (cases getItem)
    case (Inl e)
    then show ?thesis by (simp add: stored_field_def)
  next
    case (Inr item)
    show ?thesis
    proof (cases item)
      case None
      with Inr show ?thesis by (simp add: stored_field_def)
    next
      case (Some stored)
      show ?thesis
      proof (cases "JSON_parse stored")
        case (Inl e)
        with Inr Some show ?thesis by (simp add: stored_field_def)
      next
        case parsed: (Inr v)
        show ?thesis
          using Inr Some parsed nn by (cases v) (simp_all add: stored_field_def)
      qed
    qed
  qed
qed

lemma nullish_stored_field:
  "nullish (stored_field JSON_parse getItem name) d
     = (case stored_field JSON_parse getItem name of Some v \<Rightarrow> v | None \<Rightarrow> d)"
proof (cases "stored_field JSON_parse getItem name")
  case None
  then show ?thesis by (simp add: nullish_def)
next
  case (Some v)
  moreover from Some have "v \<noteq> JNull"
    using stored_field_not_null [of JSON_parse getItem name] by auto
  ultimately show ?thesis
    by (cases v) (simp_all add: nullish_def)
qed

text \<open>
  C9. \<open>loadSettings\<close> never lets an exception out and always returns an object with the
  nine fields of \<open>AppSettings\<close>, none of them missing or \<^verbatim>\<open>null\<close>: whatever
  \<^verbatim>\<open>localStorage.getItem\<close> does (throw, return \<^verbatim>\<open>null\<close>, return any text) and
  whatever \<^verbatim>\<open>JSON.parse\<close> makes of the text, each of the seven stored fields is the
  stored value when there is one and its default when there is none, and
  \<open>useKolkataTimezone\<close> is \<^verbatim>\<open>true\<close> and \<open>baseTheme\<close> is \<^verbatim>\<open>'dark'\<close>.
\<close>

theorem loadSettings_total:
  "\<exists>r. loadSettings JSON_parse start getItem = Inr r
       \<and> property_names r = AppSettings_names
       \<and> (\<forall>name \<in> set AppSettings_names.
             property_of r name \<noteq> None \<and> property_of r name \<noteq> Some JNull)
       \<and> (\<forall>name \<in> set stored_names.
             property_of r name
               = Some (case stored_field JSON_parse getItem name of
                         Some v \<Rightarrow> v | None \<Rightarrow> default_field start name))
       \<and> property_of r ''useKolkataTimezone'' = Some (JBool True)
       \<and> property_of r ''baseTheme'' = Some (JStr ''dark'')"
proof (intro exI conjI ballI)
  show "loadSettings JSON_parse start getItem
          = Inr (settings_literal start (stored_field JSON_parse getItem))"
    by (rule loadSettings_literal)
  show "property_names (settings_literal start (stored_field JSON_parse getItem))
          = AppSettings_names"
    by (rule settings_literal_prop)
  show "property_of (settings_literal start (stored_field JSON_parse getItem))
          ''useKolkataTimezone'' = Some (JBool True)"
    by (rule settings_literal_prop)
  show "property_of (settings_literal start (stored_field JSON_parse getItem))
          ''baseTheme'' = Some (JStr ''dark'')"
    by (rule settings_literal_prop)
next
  fix name
  assume "name \<in> set AppSettings_names"
  then show "property_of (settings_literal start (stored_field JSON_parse getItem)) name \<noteq> None"
    and "property_of (settings_literal start (stored_field JSON_parse getItem)) name
           \<noteq> Some JNull"
    using settings_literal_populated by blast+
next
  fix name
  assume "name \<in> set stored_names"
  then show "property_of (settings_literal start (stored_field JSON_parse getItem)) name
               = Some (case stored_field JSON_parse getItem name of
                         Some v \<Rightarrow> v | None \<Rightarrow> default_field start name)"
    by (simp only: settings_literal_stored nullish_stored_field)
qed

definition parse0 :: "string \<Rightarrow> error + json" where
  "parse0 s = (if s = ''[stored settings]''
               then Inr (JObj [(''title'', JStr ''Boards''), (''showSeconds'', JNull)])
               else if s = ''null'' then Inr JNull
               else Inl SyntaxError)"

lemma loadSettings_ev:
  "loadSettings parse0 ''2025-01-01T12:00:00.000Z''
     (Inr (Some ''[stored settings]''))
   = Inr (JObj [(''title'', JStr ''Boards''),
           (''targetDate'', JStr ''2026-01-21T00:00:00.000+05:30''),
           (''startDate'', JStr ''2025-01-01T12:00:00.000Z''),
           (''showSeconds'', JBool True),
           (''useKolkataTimezone'', JBool True),
           (''baseTheme'', JStr ''dark''),
           (''colorScheme'', JStr ''blue-ocean''),
           (''notificationReminders'', JArr [JNum 86400000, JNum 3600000]),
           (''notificationEnabled'', JBool False)])"
  "loadSettings parse0 ''2025-01-01T12:00:00.000Z'' (Inr (Some ''null''))
   = loadSettings parse0 ''2025-01-01T12:00:00.000Z'' (Inl SecurityError)"
  "''title'' \<in> set stored_names" "''title'' \<in> set AppSettings_names"
  "stored_field parse0 (Inr (Some ''[stored settings]'')) ''title''
     = Some (JStr ''Boards'')"
  by code_simp+

theorem loadSettings_total_witness:
  "''title'' \<in> set stored_names \<and> ''title'' \<in> set AppSettings_names
   \<and> (\<exists>r. loadSettings parse0 ''2025-01-01T12:00:00.000Z''
             (Inr (Some ''[stored settings]'')) = Inr r
          \<and> property_of r ''title'' = Some (JStr ''Boards'')
          \<and> property_of r ''baseTheme'' = Some (JStr ''dark''))"
  using loadSettings_total [of parse0 "''2025-01-01T12:00:00.000Z''"
          "Inr (Some ''[stored settings]'')"]
  by (auto simp: loadSettings_ev(3,4,5))

section \<open>Properties of the host's calendar and parser\<close>
































section \<open>Properties of the conversions between local strings and instants\<close>


lemma not_a_date:
  "Date_parse_format L ''not-a-date'' = None"
  "Date_parse_format L ''not-a-date:00.000+05:30'' = None"
  by (simp_all add: Date_parse_format_def parse_date_def parse_year_def take_digits_def
        decimal_digit_def)






text \<open>
  A host in the zone Europe/Berlin, with the zone's rules from 27 October 2024 to
  28 March 2026: summer time begins at 2025-03-30T01:00Z and ends at 2025-10-26T01:00Z.
  A local time that occurs twice, or not at all, is read with the offset before the
  change, as the standard prescribes.
\<close>

definition berlin_rules :: "int \<Rightarrow> int" where
  "berlin_rules t =
     (if t < 1743296400000 then 3600000
      else if t < 1761440400000 then 7200000
      else 3600000)"

definition berlin_LocalTZA :: "int \<Rightarrow> int" where
  "berlin_LocalTZA local =
     (if local < 1743296400000 + 7200000 then 3600000
      else if local < 1761440400000 + 7200000 then 7200000
      else 3600000)"

text \<open>
  Of what is not in the date-time string format, this host reads a date-time with a
  space in place of the \<^verbatim>\<open>T\<close>, and nothing else.
\<close>

definition space_for_T :: "string \<Rightarrow> string" where
  "space_for_T s = map (\<lambda>c. if c = CHR '' '' then CHR ''T'' else c) s"

definition berlin :: Host where
  "berlin =
     \<lparr>zoneRules = (\<lambda>z. if z = ''Europe/Berlin'' then Some berlin_rules
                       else if z = ''Asia/Kolkata'' then Some (\<lambda>_. 19800000)
                       else None),
      LocalTZA = berlin_LocalTZA,
      TIMEZONE_BROWSER = ''Europe/Berlin'',
      fallback = (\<lambda>s. Date_parse_format berlin_LocalTZA (space_for_T s))\<rparr>"

lemma berlin_zone:
  "zoneRules berlin TIMEZONE_KOLKATA = Some (\<lambda>_. 19800000)"
  "zoneRules berlin (TIMEZONE_BROWSER berlin) = Some berlin_rules"
  "TIMEZONE_BROWSER berlin \<noteq> TIMEZONE_KOLKATA"
  by (simp_all add: berlin_def TIMEZONE_KOLKATA_def)




lemma parse_year_other:
  assumes "\<not> decimal_digit c" "c \<noteq> CHR ''+''" "c \<noteq> CHR ''-''"
  shows "parse_year (c # r) = None"
  using assms by (simp add: parse_year_def take_digits_def)

lemma Date_parse_format_other:
  assumes "\<not> decimal_digit c" "c \<noteq> CHR ''+''" "c \<noteq> CHR ''-''"
  shows "Date_parse_format L (c # r) = None"
  by (simp add: Date_parse_format_def parse_date_def parse_year_other [OF assms])

lemma parse_year_only:
  "Date_parse_format L ''2025T16:00:00.000+05:30'' = Some 1735727400000"
  "Date_parse_format L ''2025'' = Some 1735689600000"
  by code_simp+

text \<open>
  C8 (as amended). \<open>getUTCFromDateTimeLocalAndTz\<close> gives the invalid date for the empty
  string, and a value in every case: it has no exception to throw. Any other text goes to
  \<^verbatim>\<open>new Date\<close>, in the fixed zone with \<open>:00.000+05:30\<close> appended, and is invalid
  exactly when \<^verbatim>\<open>new Date\<close> rejects it. A text that begins with anything but a digit
  or a sign, such as \<open>not-a-date\<close>, is not in the date-time string format, so that its
  result is the one of the host's fallback: the invalid date on a host whose fallback
  rejects it. A text that is in the format is accepted though it is not a complete local
  date-time: \<open>2025T16:00\<close>, without month and day, is 2025-01-01T10:30:00.000Z in the
  fixed zone. \<open>isValidDateInput\<close> holds exactly when
  \<open>getUTCFromDateTimeLocalAndTz\<close> gives a valid date.
\<close>

theorem invalid_input_is_invalid_date:
  "getUTCFromDateTimeLocalAndTz host [] timezone = None
   \<and> (s \<noteq> [] \<longrightarrow>
         getUTCFromDateTimeLocalAndTz host s timezone
           = Date_parse host (if timezone = TIMEZONE_KOLKATA then s @ '':00.000+05:30'' else s))
   \<and> (\<not> decimal_digit c \<and> c \<noteq> CHR ''+'' \<and> c \<noteq> CHR ''-'' \<longrightarrow>
         getUTCFromDateTimeLocalAndTz host (c # r) timezone
           = fallback host (if timezone = TIMEZONE_KOLKATA then (c # r) @ '':00.000+05:30''
                            else c # r))
   \<and> (fallback host (if timezone = TIMEZONE_KOLKATA then ''not-a-date:00.000+05:30''
                       else ''not-a-date'') = None
       \<longrightarrow> getUTCFromDateTimeLocalAndTz host ''not-a-date'' timezone = None)
   \<and> getUTCFromDateTimeLocalAndTz host ''2025T16:00'' TIMEZONE_KOLKATA = Some 1735727400000
   \<and> isValidDateInput host s timezone
       = (getUTCFromDateTimeLocalAndTz host s timezone \<noteq> None)"
proof -
  have 1: "getUTCFromDateTimeLocalAndTz host [] timezone = None"
    by (simp add: getUTCFromDateTimeLocalAndTz_def)
  have 2: "s \<noteq> [] \<longrightarrow>
         getUTCFromDateTimeLocalAndTz host s timezone
           = Date_parse host (if timezone = TIMEZONE_KOLKATA then s @ '':00.000+05:30'' else s)"
    by (simp add: getUTCFromDateTimeLocalAndTz_def)
  have other: "getUTCFromDateTimeLocalAndTz host (c # r) timezone
           = fallback host (if timezone = TIMEZONE_KOLKATA then (c # r) @ '':00.000+05:30''
                            else c # r)"
    if "\<not> decimal_digit c" "c \<noteq> CHR ''+''" "c \<noteq> CHR ''-''" for c r
    using Date_parse_format_other [OF that, of "LocalTZA host"]
    by (simp add: getUTCFromDateTimeLocalAndTz_def Date_parse_def)
  have 3: "\<not> decimal_digit c \<and> c \<noteq> CHR ''+'' \<and> c \<noteq> CHR ''-'' \<longrightarrow>
         getUTCFromDateTimeLocalAndTz host (c # r) timezone
           = fallback host (if timezone = TIMEZONE_KOLKATA then (c # r) @ '':00.000+05:30''
                            else c # r)"
    using other by blast
  have n: "\<not> decimal_digit (CHR ''n'')"
    by (simp add: decimal_digit_def)
  have 4: "fallback host (if timezone = TIMEZONE_KOLKATA then ''not-a-date:00.000+05:30''
                       else ''not-a-date'') = None
       \<longrightarrow> getUTCFromDateTimeLocalAndTz host ''not-a-date'' timezone = None"
    using other [OF n, of "''ot-a-date''"] by simp
  have 5: "getUTCFromDateTimeLocalAndTz host ''2025T16:00'' TIMEZONE_KOLKATA
             = Some 1735727400000"
    using parse_year_only(1) [of "LocalTZA host"]
    by (simp add: getUTCFromDateTimeLocalAndTz_def Date_parse_def)
  have 6: "isValidDateInput host s timezone
       = (getUTCFromDateTimeLocalAndTz host s timezone \<noteq> None)"
    by (simp add: isValidDateInput_def getUTCFromDateTimeLocalAndTz_def)
  from 1 2 3 4 5 6 show ?thesis by blast
qed

lemma invalid_ev:
  "\<not> decimal_digit (CHR ''J'')"
  "fallback berlin ''Jan 15 2025'' = None"
  "fallback berlin ''Jan 15 2025:00.000+05:30'' = None"
  "fallback berlin ''not-a-date'' = None"
  "fallback berlin ''not-a-date:00.000+05:30'' = None"
  "Date_parse berlin ''2025-01-15 16:00:00.000+05:30'' = Some 1736937000000"
  "Date_parse berlin ''2025-13-15T16:00:00.000+05:30'' = None"
  by code_simp+

theorem invalid_input_is_invalid_date_witness:
  "\<not> decimal_digit (CHR ''J'') \<and> CHR ''J'' \<noteq> CHR ''+'' \<and> CHR ''J'' \<noteq> CHR ''-''
   \<and> getUTCFromDateTimeLocalAndTz berlin ''Jan 15 2025'' TIMEZONE_KOLKATA = None
   \<and> getUTCFromDateTimeLocalAndTz berlin ''Jan 15 2025'' (TIMEZONE_BROWSER berlin) = None
   \<and> fallback berlin ''not-a-date:00.000+05:30'' = None
   \<and> getUTCFromDateTimeLocalAndTz berlin ''not-a-date'' TIMEZONE_KOLKATA = None
   \<and> fallback berlin ''not-a-date'' = None
   \<and> getUTCFromDateTimeLocalAndTz berlin ''not-a-date'' (TIMEZONE_BROWSER berlin) = None
   \<and> \<not> isValidDateInput berlin ''not-a-date'' TIMEZONE_KOLKATA
   \<and> getUTCFromDateTimeLocalAndTz berlin ''2025-01-15 16:00'' TIMEZONE_KOLKATA
       = Some 1736937000000
   \<and> getUTCFromDateTimeLocalAndTz berlin ''2025-13-15T16:00'' TIMEZONE_KOLKATA = None"
proof -
  have j: "\<not> decimal_digit (CHR ''J'')" "CHR ''J'' \<noteq> CHR ''+''" "CHR ''J'' \<noteq> CHR ''-''"
    by (simp_all add: invalid_ev)
  have 1: "getUTCFromDateTimeLocalAndTz berlin ''Jan 15 2025'' TIMEZONE_KOLKATA = None"
    using invalid_input_is_invalid_date
            [of berlin TIMEZONE_KOLKATA "''x''" "CHR ''J''" "''an 15 2025''"] j
    by (simp add: invalid_ev)
  have 2: "getUTCFromDateTimeLocalAndTz berlin ''Jan 15 2025'' (TIMEZONE_BROWSER berlin) = None"
    using invalid_input_is_invalid_date
            [of berlin "TIMEZONE_BROWSER berlin" "''x''" "CHR ''J''" "''an 15 2025''"] j
    by (simp add: invalid_ev berlin_zone)
  have 3: "getUTCFromDateTimeLocalAndTz berlin ''not-a-date'' TIMEZONE_KOLKATA = None"
    using invalid_input_is_invalid_date
            [of berlin TIMEZONE_KOLKATA "''x''" "CHR ''J''" "''an 15 2025''"]
    by (simp add: invalid_ev)
  have 4: "getUTCFromDateTimeLocalAndTz berlin ''not-a-date'' (TIMEZONE_BROWSER berlin) = None"
    using invalid_input_is_invalid_date
            [of berlin "TIMEZONE_BROWSER berlin" "''x''" "CHR ''J''" "''an 15 2025''"]
    by (simp add: invalid_ev berlin_zone)
  have 5: "\<not> isValidDateInput berlin ''not-a-date'' TIMEZONE_KOLKATA"
    using invalid_input_is_invalid_date
            [of berlin TIMEZONE_KOLKATA "''not-a-date''" "CHR ''J''" "''an 15 2025''"] 3
    by simp
  have 6: "getUTCFromDateTimeLocalAndTz berlin ''2025-01-15 16:00'' TIMEZONE_KOLKATA
             = Some 1736937000000"
    using invalid_input_is_invalid_date
            [of berlin TIMEZONE_KOLKATA "''2025-01-15 16:00''" "CHR ''J''" "''an 15 2025''"]
    by (simp add: invalid_ev)
  have 7: "getUTCFromDateTimeLocalAndTz berlin ''2025-13-15T16:00'' TIMEZONE_KOLKATA = None"
    using invalid_input_is_invalid_date
            [of berlin TIMEZONE_KOLKATA "''2025-13-15T16:00''" "CHR ''J''" "''an 15 2025''"]
    by (simp add: invalid_ev)
  from j 1 2 3 4 5 6 7 invalid_ev(4) invalid_ev(5) show ?thesis
    by blast
qed

text \<open>
  The claim C8 as stated fails for malformed text that \<^verbatim>\<open>new Date\<close> accepts.
  \<open>2025T16:00\<close> has no month and no day, so it is not a local date-time
  (\<open>YYYY-MM-DDTHH:MM\<close>); with the offset appended it is in the date-time string format,
  where a year alone is a date, and is read as 1 January 2025, 16:00 at +05:30. In the
  host's own zone \<open>2025\<close> alone is a valid date.
\<close>

theorem malformed_text_accepted_counterexample:
  "getUTCFromDateTimeLocalAndTz berlin ''2025T16:00'' TIMEZONE_KOLKATA = Some 1735727400000
   \<and> isValidDateInput berlin ''2025T16:00'' TIMEZONE_KOLKATA
   \<and> getUTCFromDateTimeLocalAndTz berlin ''2025'' (TIMEZONE_BROWSER berlin)
       = Some 1735689600000
   \<and> isValidDateInput berlin ''2025'' (TIMEZONE_BROWSER berlin)"
  by code_simp

end
